theory Spec2Isabelle
  imports Main
begin

section \<open>Promises and the microtask queue\<close>

text \<open>
  Every method of the two classes returns a promise. A promise is modelled by the state it
  ends in: fulfilled with a value, rejected with an error, or never settled (the executor
  returned without calling \<open>resolve\<close> or \<open>reject\<close>).

  The executor passed to \<open>new Promise\<close> runs synchronously, and an exception thrown
  by it rejects the promise. \<open>p.catch(x)\<close> with \<open>x\<close> a string (not a function) is
  \<open>p.then(undefined, x)\<close>; a handler that is not callable is ignored, so the promise
  returned by \<open>catch\<close> settles exactly as \<open>p\<close> does, one microtask later.
\<close>

datatype js_error = SyntaxError | ReferenceError | TypeError

datatype 'a promise = Resolved 'a | Rejected js_error | Pending

datatype 'a completion = Normal 'a | Throw js_error

text \<open>
  Two methods (\<open>validateChain\<close>, \<open>getStarsByWalletAddress\<close>) fill an array from
  \<open>async\<close> callbacks handed to \<open>forEach\<close>. \<open>forEach\<close> ignores the promise each
  callback returns, so what the caller sees depends on the order of the microtask queue:
  \<^item> a callback runs synchronously up to its first \<open>await\<close>;
  \<^item> the promise it awaits there is the one returned by \<open>.catch(...)\<close> on an already
    settled promise: a reaction job is queued at once (\<open>Settle_derived\<close>), and only when
    that job runs is the derived promise settled and the callback's continuation queued
    (\<open>Resume_callback\<close>);
  \<^item> after \<open>forEach\<close> returns, \<open>resolve(array)\<close> fulfils the method's promise with
    the array object itself; a caller that awaits the returned promise (as \<open>_addBlock\<close>
    does) has its continuation queued at that moment (\<open>Resume_caller\<close>);
  \<^item> the queue is first in, first out.
  This is the order of ECMAScript 2019 and later (Node.js 12 and later), where \<open>await\<close>
  on a native promise adds no job of its own. For a chain of two blocks the queue after the
  synchronous part is \<open>[Settle_derived 0, Settle_derived 1, Resume_caller]\<close>; the two
  settling jobs append \<open>Resume_callback 0\<close> and \<open>Resume_callback 1\<close> behind
  \<open>Resume_caller\<close>, so the caller reads the array before either callback has gone past
  its \<open>await\<close>.

  The state of the loop is the shared array and what the caller read from it when its
  continuation ran (\<open>None\<close> before that). A promise that never settles queues nothing.
\<close>

datatype ('k, 'v) microtask =
    Settle_derived 'k 'v
  | Resume_callback 'k 'v
  | Resume_caller

fun weight :: "('k, 'v) microtask \<Rightarrow> nat" where
  "weight (Settle_derived _ _) = 2"
| "weight _ = 1"

function run_microtasks ::
  "('k \<Rightarrow> 'v \<Rightarrow> 'a list \<Rightarrow> 'a list) \<Rightarrow> ('k, 'v) microtask list
     \<Rightarrow> 'a list \<times> 'a list option \<Rightarrow> 'a list \<times> 'a list option" where
  "run_microtasks resume [] st = st"
| "run_microtasks resume (Settle_derived c v # queue) st =
     run_microtasks resume (queue @ [Resume_callback c v]) st"
| "run_microtasks resume (Resume_callback c v # queue) (arr, seen) =
     run_microtasks resume queue (resume c v arr, seen)"
| "run_microtasks resume (Resume_caller # queue) (arr, seen) =
     run_microtasks resume queue (arr, Some arr)"
  by pat_completeness auto
termination
  by (relation "measure (\<lambda>(resume, queue, st). sum_list (map weight queue))") auto

text \<open>
  Names for the shape of a queue: a job that settles a derived promise, the continuation
  it schedules, and a continuation already scheduled.
\<close>

fun is_settle :: "('k, 'v) microtask \<Rightarrow> bool" where
  "is_settle (Settle_derived _ _) = True"
| "is_settle _ = False"

fun is_resume :: "('k, 'v) microtask \<Rightarrow> bool" where
  "is_resume (Resume_callback _ _) = True"
| "is_resume _ = False"

fun resumption :: "('k, 'v) microtask \<Rightarrow> ('k, 'v) microtask" where
  "resumption (Settle_derived c v) = Resume_callback c v"
| "resumption t = t"

text \<open>\<open>xs[i]\<close> for an integer \<open>i\<close>: \<open>undefined\<close> outside the array.\<close>

definition index :: "'a list \<Rightarrow> int \<Rightarrow> 'a option" where
  "index xs i = (if 0 \<le> i \<and> i < int (length xs) then Some (xs ! nat i) else None)"

text \<open>\<open>if (x)\<close> on an array: every object is truthy, the empty array included.\<close>

definition ToBoolean_array :: "'a list \<Rightarrow> bool" where
  "ToBoolean_array arr = True"

section \<open>Block\<close>

text \<open>
  \<open>timeStamp\<close> is the number \<open>0\<close> after construction and a string of decimal digits
  once the block has been added; \<open>hash\<close> and \<open>previousBlockHash\<close> are \<open>null\<close> or a
  string.
\<close>

datatype stamp = Num int | Str string

record Block =
  hash :: "string option"
  height :: int
  body :: string
  timeStamp :: stamp
  previousBlockHash :: "string option"

text \<open>
  The digest \<open>SHA256(JSON.stringify(block)).toString()\<close> is a function of the five
  fields of the block; it is a parameter \<open>digest\<close> of the model.

  \<open>validate\<close> clears \<open>self.hash\<close>, recomputes the digest, puts the hash back and resolves
  with \<open>currentHash === newHash\<close>. The model returns the resolved value and the block as the
  call leaves it.
\<close>

definition validate :: "(Block \<Rightarrow> string) \<Rightarrow> Block \<Rightarrow> bool \<times> Block" where
  "validate digest self =
     (let currentHash = hash self;
          self1 = self\<lparr>hash := None\<rparr>;
          newHash = digest self1;
          self2 = self1\<lparr>hash := currentHash\<rparr>
      in (currentHash = Some newHash, self2))"

section \<open>Blockchain: lookups, validateChain, _addBlock\<close>

record Blockchain =
  chain :: "Block list"
  height :: int

definition getChainHeight :: "Blockchain \<Rightarrow> int promise" where
  "getChainHeight self = Resolved (Blockchain.height self)"

text \<open>
  Both lookups take the first element of a filtered array and call \<open>resolve\<close> only when
  there is one; there is no other branch, so on a miss the promise is never settled.
\<close>

definition getBlockByHash :: "Blockchain \<Rightarrow> string option \<Rightarrow> Block promise" where
  "getBlockByHash self h =
     (case filter (\<lambda>p. hash p = h) (chain self) of
        [] \<Rightarrow> Pending
      | block # _ \<Rightarrow> Resolved block)"

definition getBlockByHeight :: "Blockchain \<Rightarrow> int \<Rightarrow> Block promise" where
  "getBlockByHeight self h =
     (case filter (\<lambda>p. Block.height p = h) (chain self) of
        [] \<Rightarrow> Pending
      | block # _ \<Rightarrow> Resolved block)"

text \<open>
  \<open>validateChain\<close>. The callback has two places where it awaits \<open>block.validate()\<close>;
  \<open>check\<close> records which one a suspended callback is at. \<open>validate\<close> has run to its end
  before the \<open>await\<close> and leaves the block as it found it (lemma \<open>validate_block\<close> below), so
  only its resolved value is kept.

  For a block of height other than 0 the callback first reads
  \<open>self.chain[block.height-1].hash\<close>. When that index is outside the array the read throws
  a TypeError inside the \<open>async\<close> callback, which rejects the callback's own promise;
  \<open>forEach\<close> drops that promise, so the scan goes on and nothing is pushed. When the two
  hashes differ the callback ends: there is no branch for a broken link.

  \<open>block + "is not validated"\<close> converts the block with \<open>Object.prototype.toString\<close>.
\<close>

datatype check = Genesis_check | Block_check

definition object_Object :: string where
  "object_Object = ''[object Object]''"

fun resume_validate :: "check \<Rightarrow> bool \<Rightarrow> string list \<Rightarrow> string list" where
  "resume_validate Genesis_check isValid errorLog =
     (if \<not> isValid then errorLog @ [''Genesis Block is not valid''] else errorLog)"
| "resume_validate Block_check isValid errorLog =
     (if \<not> isValid then errorLog @ [object_Object @ ''is not validated''] else errorLog)"

definition validate_callback ::
  "(Block \<Rightarrow> string) \<Rightarrow> Block list \<Rightarrow> Block \<Rightarrow> (check, bool) microtask list" where
  "validate_callback digest chn block =
     (if Block.height block = 0 then
        [Settle_derived Genesis_check (fst (validate digest block))]
      else
        (case index chn (Block.height block - 1) of
           None \<Rightarrow> []
         | Some prev \<Rightarrow>
             if previousBlockHash block = hash prev then
               [Settle_derived Block_check (fst (validate digest block))]
             else []))"

text \<open>
  The result is a pair: the contents of \<open>errorLog\<close> once the queue is empty, and the
  contents the awaiting caller read when the promise handed it the array.
\<close>

definition validateChain ::
  "(Block \<Rightarrow> string) \<Rightarrow> Blockchain \<Rightarrow> string list \<times> string list option" where
  "validateChain digest self =
     run_microtasks resume_validate
       (concat (map (validate_callback digest (chain self)) (chain self)) @ [Resume_caller])
       ([], None)"

text \<open>\<open>s.slice(0, -3)\<close>: the string without its last three characters.\<close>

definition slice_0_m3 :: "string \<Rightarrow> string" where
  "slice_0_m3 s = take (length s - 3) s"

text \<open>
  \<open>_addBlock\<close>, with \<open>now\<close> the text of \<open>new Date().getTime().toString()\<close> at the call.
  The model takes one call at a time: no other operation on the same ledger runs between
  its steps. When \<open>getBlockByHeight\<close> does not settle, the \<open>await\<close> never resumes and
  neither does \<open>_addBlock\<close>. The digest is taken over the block as it is at that point,
  its current \<open>hash\<close> field included.

  \<open>seal\<close> is the assignments to \<open>timeStamp\<close>, \<open>height\<close> and \<open>hash\<close>;
  \<open>commit\<close> is the rest of the body: \<open>isValid\<close> is what the \<open>await\<close> of
  \<open>validateChain()\<close> yields, an array, and \<open>if (isValid)\<close> tests that array itself.
  \<open>resolve(block)\<close> is called on both paths, and \<open>reject\<close> on none.
\<close>

definition seal :: "(Block \<Rightarrow> string) \<Rightarrow> string \<Rightarrow> int \<Rightarrow> Block \<Rightarrow> Block" where
  "seal digest now h block =
     (let b1 = block\<lparr>timeStamp := Str (slice_0_m3 now)\<rparr>;
          newHeight = h + 1;
          b2 = b1\<lparr>Block.height := newHeight\<rparr>
      in b2\<lparr>hash := Some (digest b2)\<rparr>)"

definition commit ::
  "(Block \<Rightarrow> string) \<Rightarrow> Block \<Rightarrow> Blockchain \<Rightarrow> Block promise \<times> Blockchain" where
  "commit digest block self =
     (case snd (validateChain digest self) of
        None \<Rightarrow> (Pending, self)
      | Some isValid \<Rightarrow>
          if ToBoolean_array isValid then
            (Resolved block,
             self\<lparr>chain := chain self @ [block], Blockchain.height := Blockchain.height self + 1\<rparr>)
          else (Resolved block, self))"

definition addBlock ::
  "(Block \<Rightarrow> string) \<Rightarrow> string \<Rightarrow> Block \<Rightarrow> Blockchain \<Rightarrow> Block promise \<times> Blockchain" where
  "addBlock digest now block self =
     (case getChainHeight self of
        Resolved chainHeight \<Rightarrow>
          if chainHeight > -1 then
            (case getBlockByHeight self (Blockchain.height self) of
               Resolved prevBlock \<Rightarrow>
                 commit digest
                   (seal digest now (Blockchain.height self)
                      (block\<lparr>previousBlockHash := hash prevBlock\<rparr>)) self
             | _ \<Rightarrow> (Pending, self))
          else
            commit digest (seal digest now (Blockchain.height self) block) self
      | _ \<Rightarrow> (Pending, self))"

section \<open>Strings and numbers of the challenge\<close>

text \<open>
  Strings are lists of 8-bit characters (code units below 256). \<open>s.split(':')\<close> cuts at
  every colon and always returns at least one field.
\<close>

fun split :: "char \<Rightarrow> string \<Rightarrow> string list" where
  "split sep [] = [Nil]"
| "split sep (c # cs) =
     (if c = sep then Nil # split sep cs
      else (case split sep cs of
              f # fs \<Rightarrow> (c # f) # fs
            | Nil \<Rightarrow> [c # Nil]))"

text \<open>
  \<open>parseInt(string)\<close> without a radix, after ECMA-262: leading white space is dropped, then
  an optional sign, then an optional \<open>0x\<close>/\<open>0X\<close> (which selects radix 16), and the longest
  run of digits of the radix is read; with no digit the result is NaN. A number is
  \<open>None\<close> for NaN and \<open>Some\<close> of an integer otherwise. JavaScript rounds an integer beyond
  2^53 to a double; the one comparison made on these numbers, \<open>currTime - msgTime <= 300\<close>
  with \<open>currTime\<close> a clock reading, has the same outcome on the exact integers, rounding
  being monotone and exact below 2^53.
\<close>

definition StrWhiteSpaceChar :: "char \<Rightarrow> bool" where
  "StrWhiteSpaceChar c =
     (c = CHR 0x09 \<or> c = CHR 0x0A \<or> c = CHR 0x0B \<or> c = CHR 0x0C \<or> c = CHR 0x0D
      \<or> c = CHR 0x20 \<or> c = CHR 0xA0)"

definition digit_value :: "char \<Rightarrow> int option" where
  "digit_value c =
     (let n = (of_char c :: int) in
      if 48 \<le> n \<and> n \<le> 57 then Some (n - 48)
      else if 97 \<le> n \<and> n \<le> 122 then Some (n - 87)
      else if 65 \<le> n \<and> n \<le> 90 then Some (n - 55)
      else None)"

definition radix_digit :: "int \<Rightarrow> char \<Rightarrow> bool" where
  "radix_digit R c = (case digit_value c of None \<Rightarrow> False | Some d \<Rightarrow> d < R)"

definition radix_value :: "int \<Rightarrow> string \<Rightarrow> int" where
  "radix_value R Z =
     foldl (\<lambda>acc c. acc * R + (case digit_value c of None \<Rightarrow> 0 | Some d \<Rightarrow> d)) 0 Z"

definition parseInt :: "string \<Rightarrow> int option" where
  "parseInt inputString =
     (let S = dropWhile StrWhiteSpaceChar inputString;
          sign = (case S of c # _ \<Rightarrow> if c = CHR ''-'' then - 1 else 1 | Nil \<Rightarrow> (1::int));
          S1 = (case S of c # r \<Rightarrow> if c = CHR ''+'' \<or> c = CHR ''-'' then r else S | Nil \<Rightarrow> S);
          hex = (case S1 of
                   a # b # _ \<Rightarrow> a = CHR ''0'' \<and> (b = CHR ''x'' \<or> b = CHR ''X'')
                 | _ \<Rightarrow> False);
          R = (if hex then 16 else 10);
          S2 = (if hex then drop 2 S1 else S1);
          Z = takeWhile (radix_digit R) S2
      in if Z = [] then None else Some (sign * radix_value R Z))"

text \<open>\<open>a - b\<close> and \<open>a <= b\<close> on numbers: NaN propagates, and a comparison with NaN is false.\<close>

definition js_minus :: "int option \<Rightarrow> int option \<Rightarrow> int option" where
  "js_minus a b = (case (a, b) of (Some x, Some y) \<Rightarrow> Some (x - y) | _ \<Rightarrow> None)"

definition js_le :: "int option \<Rightarrow> int option \<Rightarrow> bool" where
  "js_le a b = (case (a, b) of (Some x, Some y) \<Rightarrow> x \<le> y | _ \<Rightarrow> False)"

text \<open>
  \<open>message.split(':')[1]\<close> is \<open>undefined\<close> when the message has no colon, and
  \<open>parseInt(undefined)\<close> parses the text \<open>undefined\<close>.
\<close>

definition msgTime_of :: "string \<Rightarrow> int option" where
  "msgTime_of message =
     parseInt (case index (split (CHR '':'') message) 1 of
                 None \<Rightarrow> ''undefined''
               | Some field \<Rightarrow> field)"

definition currTime_of :: "string \<Rightarrow> int option" where
  "currTime_of now = parseInt (slice_0_m3 now)"

section \<open>Payloads and the collaborators\<close>

text \<open>
  A payload is a JSON value (numbers kept to the integers; no claim reads one). An object
  is the list of its own properties, each key once. \<open>data.owner\<close> throws a TypeError on
  \<open>null\<close>, reads the property of an object, and is \<open>undefined\<close> on every other value.
\<close>

datatype json =
    JNull | JBool bool | JNum int | JStr string
  | JArr "json list" | JObj "(string \<times> json) list"

fun get_owner :: "json \<Rightarrow> json option completion" where
  "get_owner JNull = Throw TypeError"
| "get_owner (JObj props) = Normal (map_of props ''owner'')"
| "get_owner _ = Normal None"

text \<open>
  What the two files take from outside is gathered in one record:
  \<^item> \<open>sha256_json\<close>: \<open>SHA256(JSON.stringify(block)).toString()\<close>;
  \<^item> \<open>JSON_stringify\<close>, \<open>JSON_parse\<close> (\<open>None\<close>: a SyntaxError is thrown);
  \<^item> \<open>hex_of\<close>: \<open>Buffer.from(text).toString('hex')\<close>; \<open>hex2ascii\<close>: the module of that
    name;
  \<^item> \<open>verify\<close>: \<open>bitcoinMessage.verify(message, address, signature)\<close>, which returns a
    boolean or throws;
  \<^item> \<open>obj_binding\<close>: whether an identifier \<open>obj\<close> is bound where \<open>getBData\<close> runs.
    Neither file declares one, and a class body is strict mode code, where assigning to an
    identifier that has no binding throws a ReferenceError instead of creating a global.
\<close>

record env =
  sha256_json :: "Block \<Rightarrow> string"
  JSON_stringify :: "json \<Rightarrow> string"
  JSON_parse :: "string \<Rightarrow> json option"
  hex_of :: "string \<Rightarrow> string"
  hex2ascii :: "string \<Rightarrow> string"
  verify :: "string \<Rightarrow> string \<Rightarrow> string \<Rightarrow> bool completion"
  obj_binding :: bool

definition new_Block :: "env \<Rightarrow> json \<Rightarrow> Block" where
  "new_Block env data =
     \<lparr>hash = None, Block.height = 0, body = hex_of env (JSON_stringify env data),
      timeStamp = Num 0, previousBlockHash = None\<rparr>"

text \<open>
  \<open>getBData\<close>: in \<open>obj = JSON.parse(decodedData)\<close> the right-hand side is evaluated first
  (it may throw a SyntaxError), then the assignment is made. An exception in the executor
  rejects the promise. \<open>resolve\<close> is called only for a height above 0.
\<close>

definition getBData :: "env \<Rightarrow> Block \<Rightarrow> json promise" where
  "getBData env self =
     (let encodedData = body self;
          decodedData = hex2ascii env encodedData
      in case JSON_parse env decodedData of
           None \<Rightarrow> Rejected SyntaxError
         | Some obj \<Rightarrow>
             if \<not> obj_binding env then Rejected ReferenceError
             else if Block.height self > 0 then Resolved obj
             else Pending)"

section \<open>Blockchain: genesis, challenge, submitStar, getStarsByWalletAddress\<close>

definition initializeChain :: "env \<Rightarrow> string \<Rightarrow> Blockchain \<Rightarrow> Blockchain" where
  "initializeChain env now self =
     (if Blockchain.height self = - 1 then
        snd (addBlock (sha256_json env) now
               (new_Block env (JObj [(''data'', JStr ''Genesis Block'')])) self)
      else self)"

text \<open>The ledger once the genesis block started by the constructor has been added.\<close>

definition new_Blockchain :: "env \<Rightarrow> string \<Rightarrow> Blockchain" where
  "new_Blockchain env now = initializeChain env now \<lparr>chain = [], Blockchain.height = - 1\<rparr>"

definition getCurrentTimeStamp :: "string \<Rightarrow> string" where
  "getCurrentTimeStamp now = slice_0_m3 now"

definition requestMessageOwnershipVerification :: "string \<Rightarrow> string \<Rightarrow> string" where
  "requestMessageOwnershipVerification now address =
     address @ '':'' @ getCurrentTimeStamp now @ '':starRegistry''"

text \<open>
  \<open>submitStar\<close>; \<open>now\<close> is the clock text read by \<open>submitStar\<close> itself and \<open>now'\<close> the one
  read later by \<open>_addBlock\<close>. Neither \<open>if\<close> has an else branch and \<open>reject\<close> is never
  called: when the test fails, or \<open>verify\<close> throws inside the \<open>async\<close> executor, the
  promise is never settled.
\<close>

definition submitStar ::
  "env \<Rightarrow> string \<Rightarrow> string \<Rightarrow> string \<Rightarrow> string \<Rightarrow> string \<Rightarrow> json \<Rightarrow> Blockchain
     \<Rightarrow> Block promise \<times> Blockchain" where
  "submitStar env now now' address message signature star self =
     (let msgTime = msgTime_of message;
          currTime = currTime_of now
      in if js_le (js_minus currTime msgTime) (Some 300) then
           (case verify env message address signature of
              Throw e \<Rightarrow> (Pending, self)
            | Normal msgValid \<Rightarrow>
                if msgValid then
                  addBlock (sha256_json env) now'
                    (new_Block env (JObj [(''star'', star), (''owner'', JStr address)])) self
                else (Pending, self))
         else (Pending, self))"

text \<open>
  \<open>getStarsByWalletAddress\<close>: each callback awaits \<open>block.getBData()\<close>; a promise that
  never settles leaves its callback suspended for good, a rejected one makes the
  \<open>await\<close> throw. \<open>resolve(stars)\<close> has been called before any continuation runs, so
  the \<open>reject()\<close> of the else branch has no effect.
\<close>

definition stars_callback :: "env \<Rightarrow> Block \<Rightarrow> (unit, json completion) microtask list" where
  "stars_callback env block =
     (case getBData env block of
        Pending \<Rightarrow> []
      | Resolved data \<Rightarrow> [Settle_derived () (Normal data)]
      | Rejected e \<Rightarrow> [Settle_derived () (Throw e)])"

fun resume_stars :: "string \<Rightarrow> unit \<Rightarrow> json completion \<Rightarrow> json list \<Rightarrow> json list" where
  "resume_stars address u (Throw e) stars = stars"
| "resume_stars address u (Normal data) stars =
     (case get_owner data of
        Throw e \<Rightarrow> stars
      | Normal owner \<Rightarrow> if owner = Some (JStr address) then stars @ [data] else stars)"

definition getStarsByWalletAddress ::
  "env \<Rightarrow> Blockchain \<Rightarrow> string \<Rightarrow> json list \<times> json list option" where
  "getStarsByWalletAddress env self address =
     run_microtasks (resume_stars address)
       (concat (map (stars_callback env) (chain self)) @ [Resume_caller])
       ([], None)"

section \<open>A sample environment and sample ledgers\<close>

text \<open>
  The theorems about the model hold for every environment. To run the model on concrete
  ledgers the collaborators are instantiated with small stand-ins: a digest that is a
  checksum of the five fields written side by side, a serializer for JSON text, a parser
  that recognises the payloads of the sample ledgers, the hexadecimal coding of 8-bit
  characters, and a verifier that accepts one fixed signature per address.
\<close>

fun decimal :: "nat \<Rightarrow> string" where
  "decimal n =
     (if n < 10 then [char_of (48 + n)] else decimal (n div 10) @ [char_of (48 + n mod 10)])"

definition show_string_option :: "string option \<Rightarrow> string" where
  "show_string_option x = (case x of None \<Rightarrow> ''null'' | Some s \<Rightarrow> CHR 0x22 # s @ [CHR 0x22])"

definition show_int :: "int \<Rightarrow> string" where
  "show_int i = (if i < 0 then CHR ''-'' # decimal (nat (- i)) else decimal (nat i))"

definition hex_digit :: "int \<Rightarrow> char" where
  "hex_digit n = (if n < 10 then char_of (48 + n) else char_of (87 + n))"

definition hex4 :: "int \<Rightarrow> string" where
  "hex4 n =
     [hex_digit (n div 4096 mod 16), hex_digit (n div 256 mod 16),
      hex_digit (n div 16 mod 16), hex_digit (n mod 16)]"

definition field_text :: "Block \<Rightarrow> string" where
  "field_text b =
     show_string_option (hash b) @ '','' @ hex4 (Block.height b) @ '','' @
     show_string_option (Some (body b)) @ '','' @
     (case timeStamp b of Num n \<Rightarrow> hex4 n | Str s \<Rightarrow> show_string_option (Some s)) @ '','' @
     show_string_option (previousBlockHash b)"

definition checksum :: "string \<Rightarrow> int" where
  "checksum s = foldl (\<lambda>a c. (31 * a + of_char c) mod 65521) 7 s"

definition sample_digest :: "Block \<Rightarrow> string" where
  "sample_digest b = hex4 (checksum (field_text b))"

fun join :: "string \<Rightarrow> string list \<Rightarrow> string" where
  "join sep [] = []"
| "join sep [x] = x"
| "join sep (x # y # ys) = x @ sep @ join sep (y # ys)"

fun sample_stringify :: "json \<Rightarrow> string" where
  "sample_stringify JNull = ''null''"
| "sample_stringify (JBool b) = (if b then ''true'' else ''false'')"
| "sample_stringify (JNum n) = show_int n"
| "sample_stringify (JStr s) = show_string_option (Some s)"
| "sample_stringify (JArr vs) = ''['' @ join '','' (map sample_stringify vs) @ '']''"
| "sample_stringify (JObj props) =
     ''{'' @ join '',''
        (map (\<lambda>(k, v). show_string_option (Some k) @ '':'' @ sample_stringify v) props) @ ''}''"

definition sample_hex :: "string \<Rightarrow> string" where
  "sample_hex s =
     concat (map (\<lambda>c. [hex_digit (of_char c div 16), hex_digit (of_char c mod 16)]) s)"

fun sample_hex2ascii :: "string \<Rightarrow> string" where
  "sample_hex2ascii (a # b # rest) =
     (case (digit_value a, digit_value b) of
        (Some x, Some y) \<Rightarrow> char_of (16 * x + y) # sample_hex2ascii rest
      | _ \<Rightarrow> sample_hex2ascii rest)"
| "sample_hex2ascii _ = []"

definition sample_signature :: "string \<Rightarrow> string" where
  "sample_signature address = ''signed by '' @ address"

definition sample_verify :: "string \<Rightarrow> string \<Rightarrow> string \<Rightarrow> bool completion" where
  "sample_verify message address signature = Normal (signature = sample_signature address)"

definition genesis_data :: json where
  "genesis_data = JObj [(''data'', JStr ''Genesis Block'')]"

definition star1 :: json where
  "star1 = JObj [(''ra'', JStr ''16h''), (''dec'', JStr ''-26'')]"

definition star2 :: json where
  "star2 = JObj [(''ra'', JStr ''17h''), (''dec'', JStr ''-27'')]"

definition star3 :: json where
  "star3 = JObj [(''ra'', JStr ''18h''), (''dec'', JStr ''-28'')]"

definition record_of :: "json \<Rightarrow> string \<Rightarrow> json" where
  "record_of star address = JObj [(''star'', star), (''owner'', JStr address)]"

definition sample_payloads :: "json list" where
  "sample_payloads =
     [genesis_data, record_of star1 ''addr1'', record_of star2 ''addr2'',
      record_of star3 ''addr1'']"

definition sample_parse :: "string \<Rightarrow> json option" where
  "sample_parse s = find (\<lambda>v. sample_stringify v = s) sample_payloads"

definition sample_env :: "bool \<Rightarrow> env" where
  "sample_env binding =
     \<lparr>sha256_json = sample_digest, JSON_stringify = sample_stringify,
      JSON_parse = sample_parse, hex_of = sample_hex, hex2ascii = sample_hex2ascii,
      verify = sample_verify, obj_binding = binding\<rparr>"

text \<open>
  A submission made at clock reading \<open>now\<close> with the challenge issued at that same reading
  and the accepted signature.
\<close>

definition sample_submit :: "string \<Rightarrow> string \<Rightarrow> json \<Rightarrow> Blockchain \<Rightarrow> Blockchain" where
  "sample_submit now address star self =
     snd (submitStar (sample_env False) now now address
            (requestMessageOwnershipVerification now address)
            (sample_signature address) star self)"

definition ledger0 :: Blockchain where
  "ledger0 = new_Blockchain (sample_env False) ''1700000000000''"

definition ledger1 :: Blockchain where
  "ledger1 = sample_submit ''1700000100000'' ''addr1'' star1 ledger0"

definition ledger2 :: Blockchain where
  "ledger2 = sample_submit ''1700000200000'' ''addr2'' star2 ledger1"

definition ledger3 :: Blockchain where
  "ledger3 = sample_submit ''1700000300000'' ''addr1'' star3 ledger2"

text \<open>Writing to a field of a stored block from outside the classes.\<close>

definition mutate_body :: "nat \<Rightarrow> string \<Rightarrow> Blockchain \<Rightarrow> Blockchain" where
  "mutate_body i new_body self =
     (if i < length (chain self)
      then self\<lparr>chain := (chain self)[i := (chain self ! i)\<lparr>body := new_body\<rparr>]\<rparr>
      else self)"

definition mutate_previousBlockHash :: "nat \<Rightarrow> string option \<Rightarrow> Blockchain \<Rightarrow> Blockchain" where
  "mutate_previousBlockHash i h self =
     (if i < length (chain self)
      then self\<lparr>chain := (chain self)[i := (chain self ! i)\<lparr>previousBlockHash := h\<rparr>]\<rparr>
      else self)"

text \<open>
  The blocks of the sample ledgers, written out (lemmas \<open>ledger0_value\<close> to
  \<open>ledger3_value\<close> below): the genesis block and three records, owned by \<open>addr1\<close>,
  \<open>addr2\<close> and \<open>addr1\<close>.
\<close>

definition block0 :: Block where
  "block0 = \<lparr>hash = Some ''17c3'', Block.height = 0,
        body = ''7b2264617461223a2247656e6573697320426c6f636b227d'',
        timeStamp = Str ''1700000000'', previousBlockHash = None\<rparr>"

definition block1 :: Block where
  "block1 = \<lparr>hash = Some ''4971'', Block.height = 1,
        body = ''7b2273746172223a7b227261223a22313668222c22646563223a222d3236227d2c226f776e6572223a226164647231227d'',
        timeStamp = Str ''1700000100'', previousBlockHash = Some ''17c3''\<rparr>"

definition block2 :: Block where
  "block2 = \<lparr>hash = Some ''b832'', Block.height = 2,
        body = ''7b2273746172223a7b227261223a22313768222c22646563223a222d3237227d2c226f776e6572223a226164647232227d'',
        timeStamp = Str ''1700000200'', previousBlockHash = Some ''4971''\<rparr>"

definition block3 :: Block where
  "block3 = \<lparr>hash = Some ''1b30'', Block.height = 3,
        body = ''7b2273746172223a7b227261223a22313868222c22646563223a222d3238227d2c226f776e6572223a226164647231227d'',
        timeStamp = Str ''1700000300'', previousBlockHash = Some ''b832''\<rparr>"

section \<open>Block.validate\<close>

lemma validate_block: "snd (validate digest self) = self"
  by (simp add: validate_def Let_def)

lemma clear_null_hash: "hash b = None \<Longrightarrow> b\<lparr>hash := None\<rparr> = b"
  by (cases b) simp

lemma sealed_block_validates:
  assumes "hash block = None"
  shows "fst (validate digest (seal digest now h block)) = True"
proof -
  have "hash (block\<lparr>timeStamp := Str (slice_0_m3 now), Block.height := h + 1\<rparr>) = None"
    using assms by simp
  then have "block\<lparr>timeStamp := Str (slice_0_m3 now), Block.height := h + 1, hash := None\<rparr>
               = block\<lparr>timeStamp := Str (slice_0_m3 now), Block.height := h + 1\<rparr>"
    by (rule clear_null_hash)
  then show ?thesis
    by (simp add: validate_def seal_def Let_def)
qed

text \<open>
  C8. \<open>validate()\<close> resolves with true exactly when the digest recomputed with \<open>hash\<close>
  cleared equals the stored hash, and the block is as it was before the call: the stored hash
  is back in place whatever the outcome.
\<close>

theorem validate_iff_digest_and_restores:
  "validate digest self = (hash self = Some (digest (self\<lparr>hash := None\<rparr>)), self)"
  by (simp add: validate_def Let_def)

section \<open>The order of the microtask queue\<close>

lemma settle_jobs_run_first:
  "list_all is_settle js \<Longrightarrow>
     run_microtasks r (js @ q) st = run_microtasks r (q @ map resumption js) st"
proof (induction js arbitrary: q)
  case Nil
  then show ?case by simp
next
  case (Cons j js)
  then obtain c v where j: "j = Settle_derived c v"
    by (cases j) simp_all
  from Cons.prems have rest: "list_all is_settle js" by simp
  have "run_microtasks r ((j # js) @ q) st = run_microtasks r (js @ (q @ [Resume_callback c v])) st"
    by (simp add: j)
  also have "\<dots> = run_microtasks r ((q @ [Resume_callback c v]) @ map resumption js) st"
    by (rule Cons.IH [OF rest])
  finally show ?case by (simp add: j)
qed

lemma resumptions_keep_seen:
  "list_all is_resume rs \<Longrightarrow> snd (run_microtasks r rs (arr, seen)) = seen"
proof (induction rs arbitrary: arr)
  case Nil
  then show ?case by simp
next
  case (Cons t rs)
  then show ?case by (cases t) simp_all
qed

lemma resumption_of_settle: "list_all is_settle js \<Longrightarrow> list_all is_resume (map resumption js)"
proof (induction js)
  case Nil
  then show ?case by simp
next
  case (Cons j js)
  then show ?case by (cases j) simp_all
qed

lemma caller_reads_empty:
  assumes "list_all is_settle js"
  shows "snd (run_microtasks r (js @ [Resume_caller]) ([], None)) = Some []"
proof -
  have "run_microtasks r (js @ [Resume_caller]) ([], None)
          = run_microtasks r ([Resume_caller] @ map resumption js) ([], None)"
    by (rule settle_jobs_run_first [OF assms])
  also have "\<dots> = run_microtasks r (map resumption js) ([], Some [])"
    by simp
  finally show ?thesis
    by (simp add: resumptions_keep_seen [OF resumption_of_settle [OF assms]])
qed

lemma validate_callback_settles: "list_all is_settle (validate_callback digest chn block)"
  by (simp add: validate_callback_def split: option.split)

lemma stars_callback_settles: "list_all is_settle (stars_callback env block)"
  by (simp add: stars_callback_def split: promise.split)

lemma concat_settles:
  "(\<And>x. list_all is_settle (f x)) \<Longrightarrow> list_all is_settle (concat (map f xs))"
  by (induction xs) simp_all

lemma validateChain_caller_reads_empty: "snd (validateChain digest self) = Some []"
  unfolding validateChain_def
  by (rule caller_reads_empty, rule concat_settles, rule validate_callback_settles)

lemma getStars_caller_reads_empty: "snd (getStarsByWalletAddress env self address) = Some []"
  unfolding getStarsByWalletAddress_def
  by (rule caller_reads_empty, rule concat_settles, rule stars_callback_settles)

lemma commit_always:
  "commit digest block self =
     (Resolved block,
      self\<lparr>chain := chain self @ [block], Blockchain.height := Blockchain.height self + 1\<rparr>)"
  by (simp add: commit_def validateChain_caller_reads_empty ToBoolean_array_def)

section \<open>The sample ledgers\<close>

lemma ledger0_value: "ledger0 = \<lparr>chain = [block0], Blockchain.height = 0\<rparr>"
  by code_simp

lemma ledger1_value: "ledger1 = \<lparr>chain = [block0, block1], Blockchain.height = 1\<rparr>"
  unfolding ledger1_def ledger0_value by code_simp

lemma ledger2_value: "ledger2 = \<lparr>chain = [block0, block1, block2], Blockchain.height = 2\<rparr>"
  unfolding ledger2_def ledger1_value by code_simp

lemma ledger3_value:
  "ledger3 = \<lparr>chain = [block0, block1, block2, block3], Blockchain.height = 3\<rparr>"
  unfolding ledger3_def ledger2_value by code_simp

section \<open>_addBlock\<close>

lemma addBlock_first:
  "Blockchain.height self = - 1 \<Longrightarrow>
     addBlock digest now block self =
       (Resolved (seal digest now (- 1) block),
        self\<lparr>chain := chain self @ [seal digest now (- 1) block], Blockchain.height := 0\<rparr>)"
  by (simp add: addBlock_def getChainHeight_def commit_always)

lemma addBlock_next:
  "- 1 < Blockchain.height self \<Longrightarrow>
   getBlockByHeight self (Blockchain.height self) = Resolved prevBlock \<Longrightarrow>
     addBlock digest now block self =
       (Resolved (seal digest now (Blockchain.height self)
                    (block\<lparr>previousBlockHash := hash prevBlock\<rparr>)),
        self\<lparr>chain := chain self @
                  [seal digest now (Blockchain.height self)
                     (block\<lparr>previousBlockHash := hash prevBlock\<rparr>)],
             Blockchain.height := Blockchain.height self + 1\<rparr>)"
  by (simp add: addBlock_def getChainHeight_def commit_always)

lemma addBlock_without_predecessor:
  "- 1 < Blockchain.height self \<Longrightarrow>
   getBlockByHeight self (Blockchain.height self) = Pending \<Longrightarrow>
     addBlock digest now block self = (Pending, self)"
  by (simp add: addBlock_def getChainHeight_def)

text \<open>
  C1. The claim: the block is pushed and the height incremented only if the whole chain
  validates, and otherwise the chain is left unchanged and an error is surfaced. The code on
  a ledger whose genesis block has had its body overwritten (so that its own scan, once
  its callbacks have run, logs \<open>Genesis Block is not valid\<close>): the record is sealed
  against the stored hash, pushed, the height goes from 0 to 1, and the promise is
  fulfilled with the block.
\<close>

theorem addBlock_commits_on_tampered_chain:
  "fst (validateChain sample_digest (mutate_body 0 ''7b7d'' ledger0))
     = [''Genesis Block is not valid'']
   \<and> addBlock sample_digest ''1700000100000''
         (new_Block (sample_env False) (record_of star1 ''addr1''))
         (mutate_body 0 ''7b7d'' ledger0)
     = (Resolved block1,
        \<lparr>chain = [block0\<lparr>body := ''7b7d''\<rparr>, block1], Blockchain.height = 1\<rparr>)"
  unfolding ledger0_value by code_simp

section \<open>validateChain\<close>

text \<open>
  C2. The claim: a block at height h > 0 whose \<open>previousBlockHash\<close> differs from the stored
  hash of its predecessor yields a linkage error for h, and its own \<open>validate()\<close> is still
  run and a failure reported. The code on the ledger of two blocks in which the block at
  height 1 has both a wrong \<open>previousBlockHash\<close> and an overwritten body: the link test
  fails, \<open>validate()\<close> (which would be false) is not run for that block, and the error
  list is empty when the caller reads it and stays empty.
\<close>

theorem validateChain_broken_link_unreported:
  "previousBlockHash
       (chain (mutate_body 1 ''7b7d'' (mutate_previousBlockHash 1 (Some ''0000'') ledger1)) ! 1)
     \<noteq> hash (chain (mutate_body 1 ''7b7d'' (mutate_previousBlockHash 1 (Some ''0000'') ledger1)) ! 0)
   \<and> fst (validate sample_digest
            (chain (mutate_body 1 ''7b7d'' (mutate_previousBlockHash 1 (Some ''0000'') ledger1)) ! 1))
     = False
   \<and> validateChain sample_digest
         (mutate_body 1 ''7b7d'' (mutate_previousBlockHash 1 (Some ''0000'') ledger1))
     = ([], Some [])"
  unfolding ledger1_value by code_simp

text \<open>
  C3. The claim: after the body of the stored block at height h has been overwritten,
  \<open>validateChain\<close> returns a non-empty list identifying h. The code on the sample ledger
  of four blocks with the body at height 2 overwritten: the caller that awaits the promise
  reads an empty list; the one entry is pushed afterwards, and its text is the same for
  every height above 0.
\<close>

theorem validateChain_tampered_body_unseen:
  "validateChain sample_digest (mutate_body 2 ''7b7d'' ledger3)
     = ([''[object Object]is not validated''], Some [])"
  unfolding ledger3_value by code_simp

section \<open>submitStar\<close>

lemma submitStar_expired:
  "currTime_of now = Some c \<Longrightarrow> msgTime_of message = Some m \<Longrightarrow> 300 < c - m \<Longrightarrow>
     submitStar env now now' address message signature star self = (Pending, self)"
  by (simp add: submitStar_def js_minus_def js_le_def)

lemma submitStar_unverified:
  "verify env message address signature \<noteq> Normal True \<Longrightarrow>
     submitStar env now now' address message signature star self = (Pending, self)"
  by (cases "verify env message address signature") (simp_all add: submitStar_def)

text \<open>
  C4. The claim: a challenge older than 300 seconds is answered with a ChallengeExpired
  error. The code with a challenge issued at second 1700000100, submitted at second
  1700000401 with the accepted signature: the promise is never settled (the ledger is
  unchanged).
\<close>

theorem submitStar_expired_never_settles:
  "js_minus (currTime_of ''1700000401000'')
       (msgTime_of (requestMessageOwnershipVerification ''1700000100000'' ''addr1''))
     = Some 301
   \<and> submitStar (sample_env False) ''1700000401000'' ''1700000401000'' ''addr1''
         (requestMessageOwnershipVerification ''1700000100000'' ''addr1'')
         (sample_signature ''addr1'') star1 ledger0
     = (Pending, ledger0)"
  unfolding ledger0_value by code_simp

text \<open>
  C5. The claim: a fresh challenge with a signature that does not verify is answered with
  an InvalidSignature error. The code with a challenge submitted 100 seconds after it was
  issued and a signature the verifier refuses: the promise is never settled (the ledger is
  unchanged).
\<close>

theorem submitStar_bad_signature_never_settles:
  "js_minus (currTime_of ''1700000200000'')
       (msgTime_of (requestMessageOwnershipVerification ''1700000100000'' ''addr1''))
     = Some 100
   \<and> verify (sample_env False)
         (requestMessageOwnershipVerification ''1700000100000'' ''addr1'') ''addr1'' ''forged''
     = Normal False
   \<and> submitStar (sample_env False) ''1700000200000'' ''1700000200000'' ''addr1''
         (requestMessageOwnershipVerification ''1700000100000'' ''addr1'')
         ''forged'' star1 ledger0
     = (Pending, ledger0)"
  unfolding ledger0_value by code_simp

text \<open>
  C10. When the second field of the challenge does not parse (\<open>parseInt\<close> gives NaN, also
  when there is no second field), \<open>currTime - msgTime\<close> is NaN, the comparison with 300 is
  false, and \<open>submitStar\<close> neither appends nor reports: the promise is never settled and
  the ledger is the one it was given.
\<close>

theorem submitStar_NaN_never_settles:
  "msgTime_of message = None \<Longrightarrow>
     submitStar env now now' address message signature star self = (Pending, self)"
  by (simp add: submitStar_def js_minus_def js_le_def split: option.split)

theorem submitStar_NaN_never_settles_witness:
  "msgTime_of ''addr1:soon:starRegistry'' = None
   \<and> submitStar (sample_env False) ''1700000100000'' ''1700000100000'' ''addr1''
         ''addr1:soon:starRegistry'' (sample_signature ''addr1'') star1 ledger0
     = (Pending, ledger0)"
proof -
  have nan: "msgTime_of ''addr1:soon:starRegistry'' = None"
    by code_simp
  show ?thesis
    using nan submitStar_NaN_never_settles [OF nan] by simp
qed

section \<open>Lookups\<close>

lemma getBlockByHash_miss:
  assumes "h \<notin> hash ` set (chain self)"
  shows "getBlockByHash self h = Pending"
proof -
  have "filter (\<lambda>p. hash p = h) (chain self) = []"
    using assms by (auto simp: filter_empty_conv)
  then show ?thesis by (simp add: getBlockByHash_def)
qed

lemma getBlockByHeight_miss:
  assumes "h \<notin> Block.height ` set (chain self)"
  shows "getBlockByHeight self h = Pending"
proof -
  have "filter (\<lambda>p. Block.height p = h) (chain self) = []"
    using assms by (auto simp: filter_empty_conv)
  then show ?thesis by (simp add: getBlockByHeight_def)
qed

text \<open>
  C7. The claim: a hash that no stored block has, and a height outside the chain, are
  answered with a NotFound result. The code on the sample ledger of two blocks, with a hash
  that is not stored and with the heights 2 and -1: in each case the promise is never
  settled.
\<close>

theorem lookup_miss_never_settles:
  "getBlockByHash ledger1 (Some ''ffff'') = Pending
   \<and> getBlockByHeight ledger1 2 = Pending
   \<and> getBlockByHeight ledger1 (- 1) = Pending"
  unfolding ledger1_value by code_simp

section \<open>getBData and getStarsByWalletAddress\<close>

lemma getBData_without_binding:
  "\<not> obj_binding env \<Longrightarrow>
     getBData env self = Rejected SyntaxError \<or> getBData env self = Rejected ReferenceError"
  by (simp add: getBData_def Let_def split: option.split)

lemma getBData_genesis_never_resolves: "getBData env (self\<lparr>Block.height := 0\<rparr>) \<noteq> Resolved obj"
  by (simp add: getBData_def Let_def split: option.split)

text \<open>
  C9. The claim: decoding the body of a block built from payload p, at a height above 0,
  gives back p. The code on a block built from a star record and put at height 1, where no
  \<open>obj\<close> is bound: the stored body does decode and parse to the payload, but the
  assignment to \<open>obj\<close> throws and the promise is rejected with a ReferenceError. (Were an
  \<open>obj\<close> bound, the same call would resolve with the payload.)
\<close>

theorem getBData_rejects_ReferenceError:
  "JSON_parse (sample_env False)
       (hex2ascii (sample_env False)
          (body (new_Block (sample_env False) (record_of star1 ''addr1''))))
     = Some (record_of star1 ''addr1'')
   \<and> getBData (sample_env False)
         ((new_Block (sample_env False) (record_of star1 ''addr1''))\<lparr>Block.height := 1\<rparr>)
     = Rejected ReferenceError
   \<and> getBData (sample_env True)
         ((new_Block (sample_env True) (record_of star1 ''addr1''))\<lparr>Block.height := 1\<rparr>)
     = Resolved (record_of star1 ''addr1'')"
  by code_simp

text \<open>
  C6. The claim: \<open>getStarsByWalletAddress\<close> returns the decoded payloads of the blocks
  above the genesis block owned by the address, in height order. The code on the sample
  ledger, where \<open>addr1\<close> owns the records at heights 1 and 3: the caller that awaits the
  promise reads an empty array; with no \<open>obj\<close> bound nothing is pushed later either,
  and where an \<open>obj\<close> is bound the two records are pushed only after the caller has read
  the array.
\<close>

theorem getStars_caller_reads_no_record:
  "getStarsByWalletAddress (sample_env False) ledger3 ''addr1'' = ([], Some [])
   \<and> getStarsByWalletAddress (sample_env True) ledger3 ''addr1''
     = ([record_of star1 ''addr1'', record_of star3 ''addr1''], Some [])"
  unfolding ledger3_value by code_simp

end
